theory Spec2Isabelle
  imports Complex_Main
begin

section \<open>Connectivity classifier (app/DTOs/Contract.ts)\<close>

text \<open>
  A row of the per-school averages query: the metric and the averaged value
  (\<^verbatim>\<open>metricId\<close>, \<^verbatim>\<open>$extras.avg\<close>).
\<close>

record measure =
  m_metricId :: nat
  m_avg :: real

text \<open>An ExpectedMetric row: (contractId, metricId, value).\<close>

record expected_metric =
  em_contractId :: nat
  em_metricId :: nat
  em_value :: real

record schools_connection =
  withoutConnection :: int
  atLeastOneBellowAvg :: int
  allEqualOrAboveAvg :: int

text \<open>\<^verbatim>\<open>Array.prototype.findIndex\<close>: the first index whose element satisfies the test, or -1.\<close>

fun findIndex :: "('a \<Rightarrow> bool) \<Rightarrow> 'a list \<Rightarrow> int" where
  "findIndex P [] = -1"
| "findIndex P (x # xs) =
     (if P x then 0
      else (let i = findIndex P xs in if i = -1 then -1 else i + 1))"

text \<open>\<^verbatim>\<open>xs[i]\<close>: \<^verbatim>\<open>undefined\<close> (here \<open>None\<close>) outside the array, also at -1.\<close>

definition js_index :: "'a list \<Rightarrow> int \<Rightarrow> 'a option" where
  "js_index xs i = (if 0 \<le> i \<and> i < int (length xs) then Some (xs ! nat i) else None)"

text \<open>
  The \<^verbatim>\<open>for (const em of expectedMetrics)\<close> loop of \<^verbatim>\<open>evaluateMeasures\<close>: it returns from
  inside the loop at the first expected metric whose test
  \<^verbatim>\<open>!schoolMeasures[index] || schoolMeasures[index]?.$extras.avg < em.value\<close> holds.
\<close>

fun evaluateMeasures_for ::
  "measure list \<Rightarrow> expected_metric list \<Rightarrow> schools_connection \<Rightarrow> schools_connection" where
  "evaluateMeasures_for schoolMeasures [] sc =
     sc\<lparr>allEqualOrAboveAvg := allEqualOrAboveAvg sc + 1\<rparr>"
| "evaluateMeasures_for schoolMeasures (em # ems) sc =
     (let index = findIndex (\<lambda>sm. m_metricId sm = em_metricId em) schoolMeasures in
      if (case js_index schoolMeasures index of
            None \<Rightarrow> True
          | Some sm \<Rightarrow> m_avg sm < em_value em)
      then sc\<lparr>atLeastOneBellowAvg := atLeastOneBellowAvg sc + 1\<rparr>
      else evaluateMeasures_for schoolMeasures ems sc)"

definition evaluateMeasures ::
  "measure list \<Rightarrow> expected_metric list \<Rightarrow> schools_connection \<Rightarrow> schools_connection" where
  "evaluateMeasures schoolMeasures expectedMetrics sc =
     (if length schoolMeasures = 0
      then sc\<lparr>withoutConnection := withoutConnection sc + 1\<rparr>
      else evaluateMeasures_for schoolMeasures expectedMetrics sc)"

text \<open>
  The spec's reading of one expected metric against a school's averages: the school has
  no average for the metric, or its average is strictly below the target.
\<close>

definition below_expected :: "measure list \<Rightarrow> expected_metric \<Rightarrow> bool" where
  "below_expected schoolMeasures em =
     (case find (\<lambda>sm. m_metricId sm = em_metricId em) schoolMeasures of
        None \<Rightarrow> True
      | Some sm \<Rightarrow> m_avg sm < em_value em)"

text \<open>
  The copy of \<^verbatim>\<open>evaluateMeasures\<close> in src/unnamed/part_001, an earlier state of the same file:
  its test is \<^verbatim>\<open>schoolMeasures[index]?.$extras.avg < em.value\<close> alone, which is false when the
  school has no average for the metric.
\<close>

fun evaluateMeasures_for_part_001 ::
  "measure list \<Rightarrow> expected_metric list \<Rightarrow> schools_connection \<Rightarrow> schools_connection" where
  "evaluateMeasures_for_part_001 schoolMeasures [] sc =
     sc\<lparr>allEqualOrAboveAvg := allEqualOrAboveAvg sc + 1\<rparr>"
| "evaluateMeasures_for_part_001 schoolMeasures (em # ems) sc =
     (let index = findIndex (\<lambda>sm. m_metricId sm = em_metricId em) schoolMeasures in
      if (case js_index schoolMeasures index of
            None \<Rightarrow> False
          | Some sm \<Rightarrow> m_avg sm < em_value em)
      then sc\<lparr>atLeastOneBellowAvg := atLeastOneBellowAvg sc + 1\<rparr>
      else evaluateMeasures_for_part_001 schoolMeasures ems sc)"

definition evaluateMeasures_part_001 ::
  "measure list \<Rightarrow> expected_metric list \<Rightarrow> schools_connection \<Rightarrow> schools_connection" where
  "evaluateMeasures_part_001 schoolMeasures expectedMetrics sc =
     (if length schoolMeasures = 0
      then sc\<lparr>withoutConnection := withoutConnection sc + 1\<rparr>
      else evaluateMeasures_for_part_001 schoolMeasures expectedMetrics sc)"

section \<open>Exceptions and constants\<close>

text \<open>
  The exceptions of the services, each built as \<^verbatim>\<open>new X(message, status, code)\<close>, an error of
  the storage client (a constraint violation, a lost connection), and the \<^verbatim>\<open>TypeError\<close> of
  the runtime for a property read on \<^verbatim>\<open>undefined\<close>.
\<close>

datatype exception =
    NotFoundException string nat string
  | InvalidStatusException string nat string
  | FailedDependencyException string nat string
  | StorageError
  | TypeError

text \<open>\<^verbatim>\<open>error.status\<close>: the errors of the storage client and of the runtime carry none.\<close>

fun error_status :: "exception \<Rightarrow> nat option" where
  "error_status (NotFoundException m st c) = Some st"
| "error_status (InvalidStatusException m st c) = Some st"
| "error_status (FailedDependencyException m st c) = Some st"
| "error_status StorageError = None"
| "error_status TypeError = None"

text \<open>\<^verbatim>\<open>if (error)\<close>: every exception above is an object, and objects are truthy.\<close>

fun error_truthy :: "exception \<Rightarrow> bool" where
  "error_truthy e = True"

text \<open>\<^verbatim>\<open>if (x)\<close> for an optional number: \<^verbatim>\<open>undefined\<close>, \<^verbatim>\<open>null\<close> and 0 are falsy.\<close>

definition truthy :: "nat option \<Rightarrow> bool" where
  "truthy x = (case x of None \<Rightarrow> False | Some n \<Rightarrow> n \<noteq> 0)"

text \<open>
  Modelled from the spec: the enum \<^verbatim>\<open>ContractStatus\<close> of App/Helpers/constants, which is not
  among the sources. The spec and the tests fix \<^verbatim>\<open>Draft\<close> = 0 and \<^verbatim>\<open>Sent\<close> = 1; the other
  members are a parameter of the model, the enum as the list of its numeric values with
  their names.
\<close>

definition ContractStatus_Draft :: int where
  "ContractStatus_Draft = 0"

definition ContractStatus_Sent :: int where
  "ContractStatus_Sent = 1"

type_synonym status_enum = "(int \<times> string) list"

text \<open>\<^verbatim>\<open>newStatus in ContractStatus\<close> and \<^verbatim>\<open>ContractStatus[n]\<close>.\<close>

definition in_ContractStatus :: "status_enum \<Rightarrow> int \<Rightarrow> bool" where
  "in_ContractStatus E n = (n \<in> set (map fst E))"

definition ContractStatus_name :: "status_enum \<Rightarrow> int \<Rightarrow> string option" where
  "ContractStatus_name E n = map_of E n"

section \<open>Rows\<close>

datatype obj_id = ObjId nat

text \<open>
  Modelled from the spec: \<^verbatim>\<open>utils.destructObjArrayWithId\<close> (App/Helpers/utils is not among the
  sources) turns the \<^verbatim>\<open>{ id }\<close> objects of the payload into the ids to attach.
\<close>

fun obj_id_of :: "obj_id \<Rightarrow> nat" where
  "obj_id_of (ObjId n) = n"

definition destructObjArrayWithId :: "obj_id list \<Rightarrow> nat list" where
  "destructObjArrayWithId xs = map obj_id_of xs"

record metric_value =
  mv_metricId :: nat
  mv_value :: real

text \<open>
  The payload \<^verbatim>\<open>ContractCreation\<close>. \<open>p_status\<close> stands for a \<^verbatim>\<open>status\<close> property that the
  caller's object may carry beyond the declared interface.
\<close>

record contract_creation =
  p_draftId :: "nat option"
  p_countryId :: nat
  p_governmentBehalf :: bool
  p_name :: string
  p_ltaId :: "nat option"
  p_currencyId :: nat
  p_budget :: string
  p_frequencyId :: nat
  p_startDate :: nat
  p_endDate :: nat
  p_ispId :: nat
  p_createdBy :: nat
  p_attachments :: "obj_id list option"
  p_schools :: "obj_id list"
  p_expectedMetrics :: "metric_value list"
  p_status :: "int option"

record contract =
  c_id :: nat
  c_countryId :: nat
  c_governmentBehalf :: bool
  c_name :: string
  c_ltaId :: "nat option"
  c_currencyId :: nat
  c_budget :: string
  c_frequencyId :: nat
  c_startDate :: nat
  c_endDate :: nat
  c_ispId :: nat
  c_createdBy :: nat
  c_status :: int

record draft =
  d_id :: nat
  d_name :: string
  d_countryId :: "nat option"
  d_governmentBehalf :: "bool option"
  d_ltaId :: "nat option"
  d_schools :: "obj_id list option"
  d_createdAt :: nat

record transition_data =
  td_draftId :: nat
  td_draftCreation :: nat

record status_transition =
  st_who :: nat
  st_contractId :: nat
  st_initialStatus :: int
  st_finalStatus :: int
  st_data :: "transition_data option"

section \<open>Storage\<close>

text \<open>
  The tables the services write, and the ids of the reference rows (attachments, schools,
  metrics) that the association and expected-metric rows point to.
\<close>

record tables =
  t_contracts :: "contract list"
  t_contract_attachments :: "(nat \<times> nat) list"
  t_contract_schools :: "(nat \<times> nat) list"
  t_expected_metrics :: "expected_metric list"
  t_drafts :: "draft list"
  t_status_transitions :: "status_transition list"
  t_attachments :: "nat list"
  t_schools :: "nat list"
  t_metrics :: "nat list"

text \<open>
  The database: what is committed, and the sequence of contract ids (a sequence is not
  rolled back). A transaction works on a copy of the tables, which \<open>trx_commit\<close> installs and
  \<open>trx_rollback\<close> drops. Opening a transaction and rolling one back are taken to succeed.
\<close>

record database =
  committed :: tables
  contract_seq :: nat

type_synonym trx_state = "database \<times> tables"

text \<open>
  The storage calls made inside a transaction. Each may be rejected by the storage for a
  reason of its own; \<open>F\<close> is the set of calls that are.
\<close>

datatype step =
    Step_Contract_create
  | Step_attach_attachments
  | Step_attach_schools
  | Step_createExpectedMetrics
  | Step_Draft_findBy
  | Step_StatusTransition_create
  | Step_Draft_delete
  | Step_Contract_find
  | Step_Contract_save
  | Step_commit

type_synonym 'a action = "trx_state \<Rightarrow> (exception + 'a) \<times> trx_state"

definition bind :: "'a action \<Rightarrow> ('a \<Rightarrow> 'b action) \<Rightarrow> 'b action" where
  "bind m k s = (case m s of (Inl e, s') \<Rightarrow> (Inl e, s') | (Inr a, s') \<Rightarrow> k a s')"

definition return :: "'a \<Rightarrow> 'a action" where
  "return a s = (Inr a, s)"

definition throw :: "exception \<Rightarrow> 'a action" where
  "throw e s = (Inl e, s)"

definition Database_transaction :: "database \<Rightarrow> tables" where
  "Database_transaction db = committed db"

definition trx_commit :: "step set \<Rightarrow> unit action" where
  "trx_commit F s =
     (if Step_commit \<in> F then (Inl StorageError, s)
      else (Inr (), ((fst s)\<lparr>committed := snd s\<rparr>, snd s)))"

definition trx_rollback :: "trx_state \<Rightarrow> database" where
  "trx_rollback s = fst s"

text \<open>
  \<^verbatim>\<open>{ ...utils.removeProperty(data, 'draftId'), status: ContractStatus.Sent }\<close>: every property
  of the payload but \<^verbatim>\<open>draftId\<close>, and \<^verbatim>\<open>status\<close>, which replaces a \<^verbatim>\<open>status\<close> of the payload. The
  id is given by \<open>Contract_create\<close>. (Modelled from the spec: \<^verbatim>\<open>utils.removeProperty\<close> is not
  among the sources.)
\<close>

definition contract_values :: "contract_creation \<Rightarrow> int \<Rightarrow> nat \<Rightarrow> contract" where
  "contract_values data status_override new_id =
     \<lparr>c_id = new_id, c_countryId = p_countryId data,
      c_governmentBehalf = p_governmentBehalf data, c_name = p_name data,
      c_ltaId = p_ltaId data, c_currencyId = p_currencyId data, c_budget = p_budget data,
      c_frequencyId = p_frequencyId data, c_startDate = p_startDate data,
      c_endDate = p_endDate data, c_ispId = p_ispId data, c_createdBy = p_createdBy data,
      c_status = status_override\<rparr>"

definition Contract_create :: "step set \<Rightarrow> (nat \<Rightarrow> contract) \<Rightarrow> contract action" where
  "Contract_create F values s =
     (if Step_Contract_create \<in> F then (Inl StorageError, s)
      else (let contract = values (contract_seq (fst s)) in
            (Inr contract,
             ((fst s)\<lparr>contract_seq := contract_seq (fst s) + 1\<rparr>,
              (snd s)\<lparr>t_contracts := t_contracts (snd s) @ [contract]\<rparr>))))"

text \<open>
  \<^verbatim>\<open>contract.related('attachments').attach(ids, trx)\<close> and the same for schools: one association
  row per id; an id with no row behind it violates the foreign key.
\<close>

definition attach_attachments :: "step set \<Rightarrow> nat \<Rightarrow> nat list \<Rightarrow> unit action" where
  "attach_attachments F contractId ids s =
     (if Step_attach_attachments \<in> F \<or> \<not> set ids \<subseteq> set (t_attachments (snd s))
      then (Inl StorageError, s)
      else (Inr (),
            (fst s,
             (snd s)\<lparr>t_contract_attachments :=
               t_contract_attachments (snd s) @ map (Pair contractId) ids\<rparr>)))"

definition attach_schools :: "step set \<Rightarrow> nat \<Rightarrow> nat list \<Rightarrow> unit action" where
  "attach_schools F contractId ids s =
     (if Step_attach_schools \<in> F \<or> \<not> set ids \<subseteq> set (t_schools (snd s))
      then (Inl StorageError, s)
      else (Inr (),
            (fst s,
             (snd s)\<lparr>t_contract_schools :=
               t_contract_schools (snd s) @ map (Pair contractId) ids\<rparr>)))"

text \<open>
  Modelled from the spec: \<^verbatim>\<open>metricService.createExpectedMetrics\<close> (App/Services/Metric is not
  among the sources) inserts one ExpectedMetric row per (metricId, value) pair, each
  referencing the new contract.
\<close>

definition createExpectedMetrics ::
  "step set \<Rightarrow> metric_value list \<Rightarrow> nat \<Rightarrow> unit action" where
  "createExpectedMetrics F metrics contractId s =
     (if Step_createExpectedMetrics \<in> F \<or>
         \<not> set (map mv_metricId metrics) \<subseteq> set (t_metrics (snd s))
      then (Inl StorageError, s)
      else (Inr (),
            (fst s,
             (snd s)\<lparr>t_expected_metrics :=
               t_expected_metrics (snd s) @
               map (\<lambda>m. \<lparr>em_contractId = contractId, em_metricId = mv_metricId m,
                          em_value = mv_value m\<rparr>) metrics\<rparr>)))"

definition Draft_findBy_id :: "step set \<Rightarrow> nat \<Rightarrow> draft option action" where
  "Draft_findBy_id F draftId s =
     (if Step_Draft_findBy \<in> F then (Inl StorageError, s)
      else (Inr (find (\<lambda>d. d_id d = draftId) (t_drafts (snd s))), s))"

definition StatusTransition_create :: "step set \<Rightarrow> status_transition \<Rightarrow> unit action" where
  "StatusTransition_create F row s =
     (if Step_StatusTransition_create \<in> F then (Inl StorageError, s)
      else (Inr (),
            (fst s,
             (snd s)\<lparr>t_status_transitions := t_status_transitions (snd s) @ [row]\<rparr>)))"

definition Draft_delete :: "step set \<Rightarrow> draft \<Rightarrow> unit action" where
  "Draft_delete F draft s =
     (if Step_Draft_delete \<in> F then (Inl StorageError, s)
      else (Inr (),
            (fst s,
             (snd s)\<lparr>t_drafts := filter (\<lambda>d. d_id d \<noteq> d_id draft) (t_drafts (snd s))\<rparr>)))"

definition Contract_find :: "step set \<Rightarrow> nat \<Rightarrow> contract option action" where
  "Contract_find F contractId s =
     (if Step_Contract_find \<in> F then (Inl StorageError, s)
      else (Inr (find (\<lambda>c. c_id c = contractId) (t_contracts (snd s))), s))"

definition Contract_save :: "step set \<Rightarrow> contract \<Rightarrow> unit action" where
  "Contract_save F contract s =
     (if Step_Contract_save \<in> F then (Inl StorageError, s)
      else (Inr (),
            (fst s,
             (snd s)\<lparr>t_contracts :=
               map (\<lambda>c. if c_id c = c_id contract then contract else c)
                 (t_contracts (snd s))\<rparr>)))"

section \<open>createContract (the contract service)\<close>

definition draft_not_found :: exception where
  "draft_not_found = NotFoundException ''Draft not found'' 404 ''NOT_FOUND''"

definition create_failed_dependency :: exception where
  "create_failed_dependency =
     FailedDependencyException ''Some dependency failed while creating contract'' 424
       ''FAILED_DEPENDENCY''"

text \<open>The \<^verbatim>\<open>if (data.draftId) { ... }\<close> block.\<close>

definition promote_draft :: "step set \<Rightarrow> contract_creation \<Rightarrow> contract \<Rightarrow> unit action" where
  "promote_draft F data contract =
     (if truthy (p_draftId data) then
        bind (Draft_findBy_id F (the (p_draftId data))) (\<lambda>found.
          case found of
            None \<Rightarrow> throw draft_not_found
          | Some draft \<Rightarrow>
              bind (StatusTransition_create F
                     \<lparr>st_who = p_createdBy data, st_contractId = c_id contract,
                      st_initialStatus = ContractStatus_Draft,
                      st_finalStatus = ContractStatus_Sent,
                      st_data = Some \<lparr>td_draftId = d_id draft,
                                      td_draftCreation = d_createdAt draft\<rparr>\<rparr>)
                (\<lambda>_. Draft_delete F draft))
      else return ())"

text \<open>The body of the \<^verbatim>\<open>try\<close> block.\<close>

definition createContract_try :: "step set \<Rightarrow> contract_creation \<Rightarrow> contract action" where
  "createContract_try F data =
     bind (Contract_create F (contract_values data ContractStatus_Sent)) (\<lambda>contract.
     bind (attach_attachments F (c_id contract)
            (destructObjArrayWithId
               (case p_attachments data of None \<Rightarrow> [] | Some xs \<Rightarrow> xs))) (\<lambda>_.
     bind (attach_schools F (c_id contract) (destructObjArrayWithId (p_schools data))) (\<lambda>_.
     bind (createExpectedMetrics F (p_expectedMetrics data) (c_id contract)) (\<lambda>_.
     bind (promote_draft F data contract) (\<lambda>_.
     bind (trx_commit F) (\<lambda>_.
     return contract))))))"

definition createContract ::
  "step set \<Rightarrow> contract_creation \<Rightarrow> database \<Rightarrow> (exception + contract) \<times> database" where
  "createContract F data db =
     (case createContract_try F data (db, Database_transaction db) of
        (Inr contract, s) \<Rightarrow> (Inr contract, fst s)
      | (Inl error, s) \<Rightarrow>
          (let db' = trx_rollback s in
           if error_status error = Some 404 then (Inl error, db')
           else (Inl create_failed_dependency, db')))"

section \<open>changeStatus (the contract service)\<close>

definition contract_not_found :: exception where
  "contract_not_found = NotFoundException ''Contract not found'' 404 ''NOT_FOUND''"

definition invalid_status :: exception where
  "invalid_status = InvalidStatusException ''Invalid status'' 400 ''INVALID_STATUS''"

definition status_failed_dependency :: exception where
  "status_failed_dependency =
     FailedDependencyException ''Some dependency failed while updating contract status'' 424
       ''FAILED_DEPENDENCY''"

definition changeStatus_try ::
  "status_enum \<Rightarrow> step set \<Rightarrow> nat \<Rightarrow> int \<Rightarrow> nat \<Rightarrow> contract action" where
  "changeStatus_try E F contractId newStatus userId =
     bind (Contract_find F contractId) (\<lambda>found.
       case found of
         None \<Rightarrow> throw contract_not_found
       | Some contract \<Rightarrow>
           (let oldStatus = c_status contract in
            if oldStatus + 1 \<noteq> newStatus \<or> \<not> in_ContractStatus E newStatus
            then throw invalid_status
            else
              bind (StatusTransition_create F
                     \<lparr>st_who = userId, st_contractId = c_id contract,
                      st_initialStatus = oldStatus, st_finalStatus = newStatus,
                      st_data = None\<rparr>) (\<lambda>_.
              bind (Contract_save F (contract\<lparr>c_status := newStatus\<rparr>)) (\<lambda>_.
              bind (trx_commit F) (\<lambda>_.
              return (contract\<lparr>c_status := newStatus\<rparr>))))))"

text \<open>The result \<open>Inr None\<close> is the \<^verbatim>\<open>undefined\<close> of the early \<^verbatim>\<open>return\<close>.\<close>

definition changeStatus ::
  "status_enum \<Rightarrow> step set \<Rightarrow> nat \<Rightarrow> int \<Rightarrow> nat option \<Rightarrow> database \<Rightarrow>
   (exception + contract option) \<times> database" where
  "changeStatus E F contractId newStatus userId db =
     (if \<not> truthy userId then (Inr None, db)
      else
        (case changeStatus_try E F contractId newStatus (the userId)
                (db, Database_transaction db) of
           (Inr contract, s) \<Rightarrow> (Inr (Some contract), fst s)
         | (Inl error, s) \<Rightarrow>
             (let db' = trx_rollback s in
              if error_truthy error then (Inl error, db')
              else (Inl status_failed_dependency, db'))))"

section \<open>Access scope (queryBuilder of the contract service)\<close>

record user =
  u_id :: nat
  u_name :: string
  u_countryId :: nat
  u_roles :: "string list"

text \<open>
  The role names \<^verbatim>\<open>roles.gigaAdmin\<close>, \<^verbatim>\<open>roles.government\<close> and \<^verbatim>\<open>roles.isp\<close> of
  App/Helpers/constants, which is not among the sources: a parameter of the model.
\<close>

record role_names =
  r_gigaAdmin :: string
  r_government :: string
  r_isp :: string

text \<open>
  Modelled from the spec: \<^verbatim>\<open>userService.checkUserRole\<close> (App/Services/User is not among the
  sources) is the capability check of the spec, whether the user has any of the given roles.
\<close>

definition checkUserRole :: "user \<Rightarrow> string list \<Rightarrow> bool" where
  "checkUserRole user names = list_ex (\<lambda>r. r \<in> set names) (u_roles user)"

record country =
  country_name :: string
  country_flagUrl :: string
  country_code :: string

record isp =
  isp_name :: string

record lta =
  lta_id :: nat
  lta_name :: string
  lta_countryId :: nat
  lta_isps :: "isp list"

record school =
  school_id :: nat
  school_name :: string

text \<open>A draft and a contract as the queries load them, with their relations and aggregates.\<close>

record draft_loaded = draft +
  dl_country :: "country option"
  dl_lta :: "lta option"
  dl_isp :: "isp option"

text \<open>
  \<open>cl_budget_number\<close> is \<^verbatim>\<open>parseInt(contract.budget)\<close>, the number that the runtime reads from
  the budget string, and \<open>cl_total_payments\<close> the sum of the payments (a budget that is no
  number and a sum over no payments are not modelled).
\<close>

record contract_loaded = contract +
  cl_country :: country
  cl_lta :: "lta option"
  cl_isp :: isp
  cl_expectedMetrics :: "expected_metric list"
  cl_schools :: "school list"
  cl_schools_count :: int
  cl_total_payments :: int
  cl_budget_number :: int

text \<open>
  A query is the predicate of its rows; \<^verbatim>\<open>where\<close>, \<^verbatim>\<open>andWhere\<close> and \<^verbatim>\<open>whereHas\<close> add a
  condition to the ones the query has.
\<close>

definition query_where :: "('a \<Rightarrow> bool) \<Rightarrow> ('a \<Rightarrow> bool) \<Rightarrow> ('a \<Rightarrow> bool)" where
  "query_where query cond = (\<lambda>row. query row \<and> cond row)"

definition queryBuilder ::
  "role_names \<Rightarrow> user \<Rightarrow>
   (contract_loaded \<Rightarrow> bool) \<times> (draft_loaded \<Rightarrow> bool) \<times> (lta \<Rightarrow> bool)" where
  "queryBuilder R user =
     (let query = (\<lambda>c. True); draftQuery = (\<lambda>d. True); ltaQuery = (\<lambda>l. True) in
      if \<not> checkUserRole user [r_gigaAdmin R] then
        (let query = query_where query (\<lambda>c. c_countryId c = u_countryId user);
             draftQuery = query_where draftQuery (\<lambda>d. d_countryId d = Some (u_countryId user));
             ltaQuery = query_where ltaQuery (\<lambda>l. lta_countryId l = u_countryId user);
             (query, draftQuery) =
               (if checkUserRole user [r_government R]
                then (query_where query (\<lambda>c. c_governmentBehalf c = True),
                      query_where draftQuery (\<lambda>d. d_governmentBehalf d = Some True))
                else (query, draftQuery));
             (query, draftQuery, ltaQuery) =
               (if checkUserRole user [r_isp R]
                then (query_where query (\<lambda>c. isp_name (cl_isp c) = u_name user),
                      query_where draftQuery
                        (\<lambda>d. case dl_isp d of None \<Rightarrow> False
                             | Some i \<Rightarrow> isp_name i = u_name user),
                      query_where ltaQuery
                        (\<lambda>l. list_ex (\<lambda>i. isp_name i = u_name user) (lta_isps l)))
                else (query, draftQuery, ltaQuery))
         in (query, draftQuery, ltaQuery))
      else (query, draftQuery, ltaQuery))"

section \<open>The list view (contractListDTO of app/DTOs/Contract.ts)\<close>

text \<open>
  Modelled from the spec: \<^verbatim>\<open>utils.getPercentage\<close> (App/Helpers/utils is not among the
  sources), \<^verbatim>\<open>part == 0 || total == 0 ? 0 : round(part / total * 100)\<close>, in exact arithmetic.
\<close>

definition getPercentage :: "int \<Rightarrow> int \<Rightarrow> int" where
  "getPercentage total' part =
     (if part = 0 \<or> total' = 0 then 0
      else round (real_of_int part / real_of_int total' * 100))"

text \<open>The interface \<^verbatim>\<open>ContractList\<close>; an optional property that is absent is \<open>None\<close>.\<close>

record contract_list =
  e_id :: nat
  e_name :: string
  e_isp :: "string option"
  e_status :: "string option"
  e_country :: "country option"
  e_schoolsConnection :: "schools_connection option"
  e_numberOfSchools :: "int option"
  e_totalSpent :: "int option"
  e_ltaId :: "nat option"

record contract_list_dto =
  dto_ltas :: "string \<rightharpoonup> contract_list list"
  dto_contracts :: "contract_list list"

text \<open>
  The argument \<^verbatim>\<open>schoolsMeasures: {}\<close> in its two shapes: keyed by school name, as
  \<^verbatim>\<open>getContractList\<close> builds it, and keyed by contract name and then by school name, as
  \<^verbatim>\<open>contractListDTO\<close> reads it.
\<close>

datatype schools_measures =
    BySchool "string \<rightharpoonup> measure list"
  | ByContract "string \<rightharpoonup> (string \<rightharpoonup> measure list)"

text \<open>What a read of \<^verbatim>\<open>schoolsMeasures[contract.name][school.name]\<close> can give.\<close>

datatype js_value =
    Undefined
  | Measures "measure list"
  | Row measure
  | Number nat

fun string_of_nat :: "nat \<Rightarrow> string" where
  "string_of_nat n =
     (if n < 10 then [''0123456789'' ! n]
      else string_of_nat (n div 10) @ [''0123456789'' ! (n mod 10)])"

text \<open>
  \<^verbatim>\<open>array[key]\<close> for a string key: the length, the element at an index written in decimal, or
  \<^verbatim>\<open>undefined\<close> (the members that an array inherits from its prototype are not modelled).
\<close>

definition array_member :: "measure list \<Rightarrow> string \<Rightarrow> js_value" where
  "array_member arr key =
     (if key = ''length'' then Number (length arr)
      else (case find (\<lambda>i. string_of_nat i = key) [0..<length arr] of
              Some i \<Rightarrow> Row (arr ! i)
            | None \<Rightarrow> Undefined))"

text \<open>\<^verbatim>\<open>schoolsMeasures[contract.name][school.name]\<close>: a read on \<^verbatim>\<open>undefined\<close> raises.\<close>

definition schoolsMeasures_at ::
  "schools_measures \<Rightarrow> string \<Rightarrow> string \<Rightarrow> exception + js_value" where
  "schoolsMeasures_at schoolsMeasures contractName schoolName =
     (case schoolsMeasures of
        ByContract m \<Rightarrow>
          (case m contractName of
             None \<Rightarrow> Inl TypeError
           | Some inner \<Rightarrow>
               Inr (case inner schoolName of None \<Rightarrow> Undefined | Some ms \<Rightarrow> Measures ms))
      | BySchool m \<Rightarrow>
          (case m contractName of
             None \<Rightarrow> Inl TypeError
           | Some arr \<Rightarrow> Inr (array_member arr schoolName)))"

text \<open>
  \<^verbatim>\<open>evaluateMeasures\<close> on whatever the read gave: \<^verbatim>\<open>schoolMeasures.length\<close> raises on
  \<^verbatim>\<open>undefined\<close>, and is \<^verbatim>\<open>undefined\<close>, hence falsy, on a row and on a number.
\<close>

definition evaluateMeasures_any ::
  "js_value \<Rightarrow> expected_metric list \<Rightarrow> schools_connection \<Rightarrow> exception + schools_connection" where
  "evaluateMeasures_any v expectedMetrics sc =
     (case v of
        Undefined \<Rightarrow> Inl TypeError
      | Measures ms \<Rightarrow> Inr (evaluateMeasures ms expectedMetrics sc)
      | Row r \<Rightarrow> Inr (sc\<lparr>withoutConnection := withoutConnection sc + 1\<rparr>)
      | Number n \<Rightarrow> Inr (sc\<lparr>withoutConnection := withoutConnection sc + 1\<rparr>))"

text \<open>A loop over an array whose body may raise.\<close>

fun forEach :: "('a \<Rightarrow> 's \<Rightarrow> exception + 's) \<Rightarrow> 'a list \<Rightarrow> 's \<Rightarrow> exception + 's" where
  "forEach f [] s = Inr s"
| "forEach f (x # xs) s = (case f x s of Inl e \<Rightarrow> Inl e | Inr s' \<Rightarrow> forEach f xs s')"

text \<open>
  The buckets are an object keyed by name (the members that an object inherits from its
  prototype are not modelled).
\<close>

definition formatLtaList :: "lta list \<Rightarrow> (string \<rightharpoonup> contract_list list)" where
  "formatLtaList ltas = foldl (\<lambda>aggregate current. aggregate(lta_name current \<mapsto> [])) Map.empty ltas"

definition draftData :: "draft_loaded \<Rightarrow> contract_list" where
  "draftData draft =
     \<lparr>e_id = d_id draft, e_name = d_name draft,
      e_isp = map_option isp_name (dl_isp draft),
      e_status = Some ''Draft'',
      e_country = dl_country draft,
      e_schoolsConnection = None,
      e_numberOfSchools = map_option (\<lambda>xs. int (length xs)) (d_schools draft),
      e_totalSpent = None,
      e_ltaId = d_ltaId draft\<rparr>"

text \<open>
  The two branches that place an entry: under the bucket of its LTA's name when it has an
  LTA and the bucket exists, in the flat list when it has no LTA.
\<close>

definition place ::
  "nat option \<Rightarrow> lta option \<Rightarrow> contract_list \<Rightarrow>
   (string \<rightharpoonup> contract_list list) \<times> contract_list list \<Rightarrow>
   exception + (string \<rightharpoonup> contract_list list) \<times> contract_list list" where
  "place ltaId lta entry s =
     (if truthy ltaId then
        (case lta of
           None \<Rightarrow> Inl TypeError
         | Some l \<Rightarrow>
             (case fst s (lta_name l) of
                Some bucket \<Rightarrow> Inr ((fst s)(lta_name l \<mapsto> bucket @ [entry]), snd s)
              | None \<Rightarrow> Inr s))
      else Inr (fst s, snd s @ [entry]))"

definition contractData ::
  "status_enum \<Rightarrow> schools_measures \<Rightarrow> contract_loaded \<Rightarrow> exception + contract_list" where
  "contractData E schoolsMeasures contract =
     (case forEach
             (\<lambda>school sc.
                case schoolsMeasures_at schoolsMeasures (c_name contract) (school_name school) of
                  Inl e \<Rightarrow> Inl e
                | Inr v \<Rightarrow> evaluateMeasures_any v (cl_expectedMetrics contract) sc)
             (cl_schools contract)
             \<lparr>withoutConnection = 0, atLeastOneBellowAvg = 0, allEqualOrAboveAvg = 0\<rparr> of
        Inl e \<Rightarrow> Inl e
      | Inr schoolsConnection \<Rightarrow>
          Inr \<lparr>e_id = c_id contract, e_name = c_name contract,
               e_isp = Some (isp_name (cl_isp contract)),
               e_status = ContractStatus_name E (c_status contract),
               e_country = Some (cl_country contract),
               e_schoolsConnection =
                 Some \<lparr>withoutConnection =
                          getPercentage (cl_schools_count contract)
                            (withoutConnection schoolsConnection),
                        atLeastOneBellowAvg =
                          getPercentage (cl_schools_count contract)
                            (atLeastOneBellowAvg schoolsConnection),
                        allEqualOrAboveAvg =
                          getPercentage (cl_schools_count contract)
                            (allEqualOrAboveAvg schoolsConnection)\<rparr>,
               e_numberOfSchools = Some (cl_schools_count contract),
               e_totalSpent =
                 Some (getPercentage (cl_budget_number contract) (cl_total_payments contract)),
               e_ltaId = c_ltaId contract\<rparr>)"

definition contractListDTO ::
  "status_enum \<Rightarrow> contract_loaded list \<Rightarrow> draft_loaded list \<Rightarrow> lta list \<Rightarrow> schools_measures \<Rightarrow>
   exception + contract_list_dto" where
  "contractListDTO E data drafts ltasData schoolsMeasures =
     (case forEach (\<lambda>draft. place (d_ltaId draft) (dl_lta draft) (draftData draft)) drafts
             (formatLtaList ltasData, []) of
        Inl e \<Rightarrow> Inl e
      | Inr s \<Rightarrow>
          (case forEach
                  (\<lambda>contract s'.
                     case contractData E schoolsMeasures contract of
                       Inl e \<Rightarrow> Inl e
                     | Inr entry \<Rightarrow> place (c_ltaId contract) (cl_lta contract) entry s')
                  data s of
             Inl e \<Rightarrow> Inl e
           | Inr s' \<Rightarrow> Inr \<lparr>dto_ltas = fst s', dto_contracts = snd s'\<rparr>))"

section \<open>getContractList (the contract service)\<close>

text \<open>
  The stored contracts, drafts and LTAs are given with their relations loaded, and
  \<open>measureAvg\<close> gives the rows of the averages query of a school id.
\<close>

definition getContractList ::
  "role_names \<Rightarrow> status_enum \<Rightarrow> user \<Rightarrow> contract_loaded list \<Rightarrow> draft_loaded list \<Rightarrow> lta list \<Rightarrow>
   (nat \<Rightarrow> measure list) \<Rightarrow> exception + contract_list_dto" where
  "getContractList R E user allContracts allDrafts allLtas measureAvg =
     (case queryBuilder R user of
        (query, draftQuery, ltaQuery) \<Rightarrow>
          (let contracts = filter query allContracts;
               drafts = filter draftQuery allDrafts;
               ltas = filter ltaQuery allLtas;
               schoolsMeasures =
                 fold (\<lambda>contract m.
                         if length (cl_schools contract) = 0 then m
                         else fold (\<lambda>school m'.
                                      m'(school_name school \<mapsto> measureAvg (school_id school)))
                                (cl_schools contract) m)
                   contracts Map.empty
           in contractListDTO E contracts drafts ltas (BySchool schoolsMeasures)))"

section \<open>The scenarios of the functional tests\<close>

text \<open>\<^verbatim>\<open>buildContract\<close> of createContract.spec.ts, with the schools and the draft id left open.\<close>

definition buildContract :: "obj_id list \<Rightarrow> nat option \<Rightarrow> contract_creation" where
  "buildContract schools draftId =
     \<lparr>p_draftId = draftId, p_countryId = 1, p_governmentBehalf = False,
      p_name = ''Contract 1'', p_ltaId = None, p_currencyId = 1, p_budget = ''1000'',
      p_frequencyId = 1, p_startDate = 2000, p_endDate = 2000, p_ispId = 1, p_createdBy = 7,
      p_attachments = None, p_schools = schools,
      p_expectedMetrics =
        [\<lparr>mv_metricId = 1, mv_value = 1\<rparr>, \<lparr>mv_metricId = 2, mv_value = 1\<rparr>,
         \<lparr>mv_metricId = 3, mv_value = 1\<rparr>, \<lparr>mv_metricId = 4, mv_value = 1\<rparr>],
      p_status = Some 0\<rparr>"

definition test_tables :: tables where
  "test_tables =
     \<lparr>t_contracts = [], t_contract_attachments = [], t_contract_schools = [],
      t_expected_metrics = [],
      t_drafts = [\<lparr>d_id = 42, d_name = ''Draft 1'', d_countryId = Some 1,
                   d_governmentBehalf = Some False, d_ltaId = None, d_schools = None,
                   d_createdAt = 1000\<rparr>],
      t_status_transitions = [], t_attachments = [1], t_schools = [1],
      t_metrics = [1, 2, 3, 4]\<rparr>"

definition test_db :: database where
  "test_db = \<lparr>committed = test_tables, contract_seq = 1\<rparr>"

definition example_enum :: status_enum where
  "example_enum = [(0, ''Draft''), (1, ''Sent''), (2, ''Confirmed''), (3, ''Ongoing'')]"

definition sent_db :: database where
  "sent_db =
     \<lparr>committed = test_tables\<lparr>t_contracts :=
        [contract_values (buildContract [ObjId 1] None) ContractStatus_Sent 1]\<rparr>,
      contract_seq = 2\<rparr>"

text \<open>Users, LTAs, drafts and contracts for the list view.\<close>

definition example_roles :: role_names where
  "example_roles = \<lparr>r_gigaAdmin = ''Giga Admin'', r_government = ''Government'', r_isp = ''ISP''\<rparr>"

definition admin_user :: user where
  "admin_user = \<lparr>u_id = 7, u_name = ''Admin'', u_countryId = 1, u_roles = [''Giga Admin'']\<rparr>"

definition isp_government_user :: user where
  "isp_government_user =
     \<lparr>u_id = 8, u_name = ''ISP A'', u_countryId = 5, u_roles = [''Government'', ''ISP'']\<rparr>"

definition lta_one :: lta where
  "lta_one = \<lparr>lta_id = 5, lta_name = ''LTA 1'', lta_countryId = 1, lta_isps = []\<rparr>"

definition lta_two :: lta where
  "lta_two = \<lparr>lta_id = 6, lta_name = ''LTA 2'', lta_countryId = 1, lta_isps = []\<rparr>"

definition draft_in_lta :: draft_loaded where
  "draft_in_lta =
     \<lparr>d_id = 42, d_name = ''Draft 1'', d_countryId = Some 1, d_governmentBehalf = Some False,
      d_ltaId = Some 5, d_schools = None, d_createdAt = 1000,
      dl_country = None, dl_lta = Some lta_one, dl_isp = None\<rparr>"

definition draft_without_lta :: draft_loaded where
  "draft_without_lta =
     \<lparr>d_id = 43, d_name = ''Draft 2'', d_countryId = Some 1, d_governmentBehalf = Some False,
      d_ltaId = None, d_schools = None, d_createdAt = 1001,
      dl_country = None, dl_lta = None, dl_isp = None\<rparr>"

definition contract_with_school :: "school list \<Rightarrow> contract_loaded" where
  "contract_with_school schools =
     \<lparr>c_id = 1, c_countryId = 1, c_governmentBehalf = False, c_name = ''Contract 1'',
      c_ltaId = None, c_currencyId = 1, c_budget = ''1000'', c_frequencyId = 1,
      c_startDate = 2000, c_endDate = 2000, c_ispId = 1, c_createdBy = 7, c_status = 1,
      cl_country = \<lparr>country_name = ''Country 1'', country_flagUrl = ''flag'', country_code = ''C1''\<rparr>,
      cl_lta = None, cl_isp = \<lparr>isp_name = ''ISP A''\<rparr>, cl_expectedMetrics = [],
      cl_schools = schools, cl_schools_count = int (length schools), cl_total_payments = 0,
      cl_budget_number = 1000\<rparr>"

definition school_a :: school where
  "school_a = \<lparr>school_id = 1, school_name = ''School A''\<rparr>"

definition nested_measures :: schools_measures where
  "nested_measures =
     ByContract [''Contract 1'' \<mapsto> [''School A'' \<mapsto> [\<lparr>m_metricId = 1, m_avg = 12\<rparr>]]]"

definition measureAvg_one :: "nat \<Rightarrow> measure list" where
  "measureAvg_one schoolId = [\<lparr>m_metricId = 1, m_avg = 12\<rparr>]"

section \<open>Properties of the classifier\<close>

lemma findIndex_range: "findIndex P xs = -1 \<or> (0 \<le> findIndex P xs \<and> findIndex P xs < int (length xs))"
  by (induction xs) (auto simp: Let_def)

lemma js_index_findIndex: "js_index xs (findIndex P xs) = find P xs"
proof (induction xs)
  case Nil
  show ?case by (simp add: js_index_def)
next
  case (Cons x xs)
  show ?case
  proof (cases "P x")
    case True
    then show ?thesis by (simp add: js_index_def)
  next
    case False
    note nP = this
    show ?thesis
    proof (cases "findIndex P xs = -1")
      case True
      with Cons nP show ?thesis by (simp add: js_index_def split: if_splits)
    next
      case False
      with findIndex_range [of P xs] have r: "0 \<le> findIndex P xs" "findIndex P xs < int (length xs)"
        by auto
      with Cons have "find P xs = Some (xs ! nat (findIndex P xs))"
        by (simp add: js_index_def)
      moreover have "nat (findIndex P xs + 1) = Suc (nat (findIndex P xs))"
        using r by simp
      ultimately show ?thesis using nP False r
        by (simp add: js_index_def Let_def)
    qed
  qed
qed

lemma evaluateMeasures_for_all_pass:
  "\<forall>e \<in> set ems. \<not> below_expected sm e \<Longrightarrow>
   evaluateMeasures_for sm ems sc = sc\<lparr>allEqualOrAboveAvg := allEqualOrAboveAvg sc + 1\<rparr>"
  by (induction ems) (simp_all add: below_expected_def js_index_findIndex Let_def)

lemma evaluateMeasures_for_first_fail:
  "\<forall>e \<in> set pre. \<not> below_expected sm e \<Longrightarrow> below_expected sm em \<Longrightarrow>
   evaluateMeasures_for sm (pre @ em # rest) sc =
     sc\<lparr>atLeastOneBellowAvg := atLeastOneBellowAvg sc + 1\<rparr>"
  by (induction pre) (simp_all add: below_expected_def js_index_findIndex Let_def)

text \<open>
  C7. A school with no measured averages counts as without connection. Otherwise the
  expected metrics are read in order, and the first one that the school has no average for,
  or whose average is strictly below the target, makes the school count as at least one
  below average, whatever follows it; when none fails (in particular when there are no
  expected metrics) the school counts as all equal or above average.
\<close>

theorem evaluateMeasures_classifies:
  "(sm = [] \<longrightarrow>
      evaluateMeasures sm ems sc = sc\<lparr>withoutConnection := withoutConnection sc + 1\<rparr>) \<and>
   (sm \<noteq> [] \<and> (\<forall>e \<in> set pre. \<not> below_expected sm e) \<and> below_expected sm em \<longrightarrow>
      evaluateMeasures sm (pre @ em # rest) sc =
        sc\<lparr>atLeastOneBellowAvg := atLeastOneBellowAvg sc + 1\<rparr>) \<and>
   (sm \<noteq> [] \<and> (\<forall>e \<in> set ems. \<not> below_expected sm e) \<longrightarrow>
      evaluateMeasures sm ems sc = sc\<lparr>allEqualOrAboveAvg := allEqualOrAboveAvg sc + 1\<rparr>) \<and>
   (sm \<noteq> [] \<longrightarrow>
      evaluateMeasures sm [] sc = sc\<lparr>allEqualOrAboveAvg := allEqualOrAboveAvg sc + 1\<rparr>)"
  by (simp add: evaluateMeasures_def evaluateMeasures_for_all_pass evaluateMeasures_for_first_fail)

theorem evaluateMeasures_classifies_witness:
  "evaluateMeasures [] [\<lparr>em_contractId = 1, em_metricId = 1, em_value = 10\<rparr>]
     \<lparr>withoutConnection = 0, atLeastOneBellowAvg = 0, allEqualOrAboveAvg = 0\<rparr> =
     \<lparr>withoutConnection = 1, atLeastOneBellowAvg = 0, allEqualOrAboveAvg = 0\<rparr> \<and>
   evaluateMeasures [\<lparr>m_metricId = 1, m_avg = 12\<rparr>]
     ([\<lparr>em_contractId = 1, em_metricId = 1, em_value = 10\<rparr>] @
      \<lparr>em_contractId = 1, em_metricId = 2, em_value = 5\<rparr> # [])
     \<lparr>withoutConnection = 0, atLeastOneBellowAvg = 0, allEqualOrAboveAvg = 0\<rparr> =
     \<lparr>withoutConnection = 0, atLeastOneBellowAvg = 1, allEqualOrAboveAvg = 0\<rparr> \<and>
   evaluateMeasures [\<lparr>m_metricId = 1, m_avg = 12\<rparr>]
     [\<lparr>em_contractId = 1, em_metricId = 1, em_value = 10\<rparr>]
     \<lparr>withoutConnection = 0, atLeastOneBellowAvg = 0, allEqualOrAboveAvg = 0\<rparr> =
     \<lparr>withoutConnection = 0, atLeastOneBellowAvg = 0, allEqualOrAboveAvg = 1\<rparr> \<and>
   evaluateMeasures [\<lparr>m_metricId = 1, m_avg = 1\<rparr>] []
     \<lparr>withoutConnection = 0, atLeastOneBellowAvg = 0, allEqualOrAboveAvg = 0\<rparr> =
     \<lparr>withoutConnection = 0, atLeastOneBellowAvg = 0, allEqualOrAboveAvg = 1\<rparr>"
  using
    evaluateMeasures_classifies
      [of "[]" "[\<lparr>em_contractId = 1, em_metricId = 1, em_value = 10\<rparr>]"
          "\<lparr>withoutConnection = 0, atLeastOneBellowAvg = 0, allEqualOrAboveAvg = 0\<rparr>"]
    evaluateMeasures_classifies
      [of "[\<lparr>m_metricId = 1, m_avg = 12\<rparr>]"
          "[\<lparr>em_contractId = 1, em_metricId = 1, em_value = 10\<rparr>]"
          "\<lparr>withoutConnection = 0, atLeastOneBellowAvg = 0, allEqualOrAboveAvg = 0\<rparr>"
          "[\<lparr>em_contractId = 1, em_metricId = 1, em_value = 10\<rparr>]"
          "\<lparr>em_contractId = 1, em_metricId = 2, em_value = 5\<rparr>" "[]"]
    evaluateMeasures_classifies
      [of "[\<lparr>m_metricId = 1, m_avg = 1\<rparr>]" "[]"
          "\<lparr>withoutConnection = 0, atLeastOneBellowAvg = 0, allEqualOrAboveAvg = 0\<rparr>"]
  by (simp add: below_expected_def)

text \<open>
  On the averages {1: 12} and the expected metrics [(1, 10), (2, 5)] the copy in
  src/unnamed/part_001 counts the school as all equal or above average.
\<close>

lemma evaluateMeasures_part_001_missing_average:
  "evaluateMeasures_part_001 [\<lparr>m_metricId = 1, m_avg = 12\<rparr>]
     [\<lparr>em_contractId = 1, em_metricId = 1, em_value = 10\<rparr>,
      \<lparr>em_contractId = 1, em_metricId = 2, em_value = 5\<rparr>]
     \<lparr>withoutConnection = 0, atLeastOneBellowAvg = 0, allEqualOrAboveAvg = 0\<rparr> =
     \<lparr>withoutConnection = 0, atLeastOneBellowAvg = 0, allEqualOrAboveAvg = 1\<rparr>"
  by (simp add: evaluateMeasures_part_001_def js_index_def)

section \<open>Properties of createContract and changeStatus\<close>


lemmas step_defs = Contract_create_def attach_attachments_def attach_schools_def
  createExpectedMetrics_def Draft_findBy_id_def StatusTransition_create_def Draft_delete_def
  Contract_find_def Contract_save_def

lemma bind_Inl:
  "bind m k s = (Inl e, s') \<longleftrightarrow>
     (m s = (Inl e, s') \<or> (\<exists>a s1. m s = (Inr a, s1) \<and> k a s1 = (Inl e, s')))"
  by (auto simp: bind_def split: prod.splits sum.splits)

lemma bind_Inr:
  "bind m k s = (Inr b, s') \<longleftrightarrow> (\<exists>a s1. m s = (Inr a, s1) \<and> k a s1 = (Inr b, s'))"
  by (auto simp: bind_def split: prod.splits sum.splits)

lemma promote_draft_committed:
  "promote_draft F data c s = (r, s') \<Longrightarrow> committed (fst s') = committed (fst s)"
  by (auto simp: promote_draft_def bind_def return_def throw_def step_defs
      split: if_splits prod.splits sum.splits option.splits)

lemma createContract_try_Inl_committed:
  "createContract_try F data s = (Inl e, s') \<Longrightarrow> committed (fst s') = committed (fst s)"
  unfolding createContract_try_def
  by (auto simp: bind_Inl return_def trx_commit_def step_defs Let_def
      dest!: promote_draft_committed split: if_splits)

lemma createContract_try_status404:
  "createContract_try F data (db, t) = (Inl e, s') \<Longrightarrow>
     (e = draft_not_found \<or> e = StorageError) \<and>
     (e = draft_not_found \<longrightarrow>
        truthy (p_draftId data) \<and>
        find (\<lambda>d. d_id d = the (p_draftId data)) (t_drafts t) = None)"
  unfolding createContract_try_def promote_draft_def
  by (auto simp: bind_Inl return_def throw_def trx_commit_def step_defs Let_def draft_not_found_def
      split: if_splits option.splits)

text \<open>
  C1. Whenever the body of the transaction raises, nothing of it is committed: the committed
  tables after the call are the ones before it (no contract, expected-metric or association
  row is added). The caller gets the \<^verbatim>\<open>Draft not found\<close> exception unchanged when that is what
  was raised, which happens only for a truthy \<^verbatim>\<open>draftId\<close> that no draft has; for every other
  failure the caller gets the failed-dependency exception.
\<close>

theorem createContract_failure_atomic:
  assumes "createContract_try F data (db, Database_transaction db) = (Inl err, s)"
  shows "committed (snd (createContract F data db)) = committed db \<and>
         (err = draft_not_found \<longrightarrow>
            fst (createContract F data db) = Inl draft_not_found \<and>
            truthy (p_draftId data) \<and>
            find (\<lambda>d. d_id d = the (p_draftId data)) (t_drafts (committed db)) = None) \<and>
         (err \<noteq> draft_not_found \<longrightarrow>
            fst (createContract F data db) = Inl create_failed_dependency)"
proof -
  from assms have c: "committed (fst s) = committed db"
    by (auto dest: createContract_try_Inl_committed)
  from assms have k: "err = draft_not_found \<or> err = StorageError"
    and n: "err = draft_not_found \<longrightarrow> truthy (p_draftId data) \<and>
        find (\<lambda>d. d_id d = the (p_draftId data)) (t_drafts (committed db)) = None"
    by (auto dest: createContract_try_status404 simp: Database_transaction_def)
  show ?thesis using assms c k n
    by (auto simp: createContract_def trx_rollback_def draft_not_found_def)
qed

lemma find_Some_holds: "find P xs = Some x \<Longrightarrow> P x \<and> x \<in> set xs"
  by (induction xs) (auto split: if_splits)

lemma createContract_try_Inr:
  "createContract_try F data (db, t) = (Inr c, s') \<Longrightarrow>
     c = contract_values data ContractStatus_Sent (contract_seq db) \<and>
     committed (fst s') = snd s' \<and>
     t_contracts (snd s') = t_contracts t @ [c] \<and>
     t_status_transitions (snd s') = t_status_transitions t @
       (if truthy (p_draftId data)
        then (case find (\<lambda>d. d_id d = the (p_draftId data)) (t_drafts t) of
                None \<Rightarrow> []
              | Some draft \<Rightarrow>
                 [\<lparr>st_who = p_createdBy data, st_contractId = c_id c,
                   st_initialStatus = ContractStatus_Draft,
                   st_finalStatus = ContractStatus_Sent,
                   st_data = Some \<lparr>td_draftId = d_id draft,
                                   td_draftCreation = d_createdAt draft\<rparr>\<rparr>])
        else []) \<and>
     t_drafts (snd s') =
       (if truthy (p_draftId data)
        then filter (\<lambda>d. d_id d \<noteq> the (p_draftId data)) (t_drafts t)
        else t_drafts t)"
  unfolding createContract_try_def promote_draft_def
  by (auto simp: bind_Inr return_def throw_def trx_commit_def step_defs Let_def
      split: if_splits option.splits dest: find_Some_holds)

lemmas eval_defs = createContract_def createContract_try_def promote_draft_def bind_def return_def
  throw_def trx_commit_def trx_rollback_def Database_transaction_def step_defs
  destructObjArrayWithId_def truthy_def contract_values_def draft_not_found_def
  create_failed_dependency_def ContractStatus_Sent_def ContractStatus_Draft_def
  buildContract_def test_tables_def test_db_def Let_def

theorem createContract_failure_atomic_witness:
  "fst (createContract_try {} (buildContract [ObjId 1123] (Some 42))
          (test_db, Database_transaction test_db)) = Inl StorageError \<and>
   committed (snd (createContract {} (buildContract [ObjId 1123] (Some 42)) test_db)) =
     committed test_db \<and>
   fst (createContract {} (buildContract [ObjId 1123] (Some 42)) test_db) =
     Inl create_failed_dependency \<and>
   fst (createContract_try {} (buildContract [ObjId 1] (Some 100001))
          (test_db, Database_transaction test_db)) = Inl draft_not_found \<and>
   committed (snd (createContract {} (buildContract [ObjId 1] (Some 100001)) test_db)) =
     committed test_db \<and>
   fst (createContract {} (buildContract [ObjId 1] (Some 100001)) test_db) =
     Inl draft_not_found"
proof -
  have a': "fst (createContract_try {} (buildContract [ObjId 1123] (Some 42))
             (test_db, Database_transaction test_db)) = Inl StorageError"
    by (simp add: eval_defs)
  have b': "fst (createContract_try {} (buildContract [ObjId 1] (Some 100001))
             (test_db, Database_transaction test_db)) = Inl draft_not_found"
    by (simp add: eval_defs)
  have a: "createContract_try {} (buildContract [ObjId 1123] (Some 42))
             (test_db, Database_transaction test_db) =
           (Inl StorageError,
            snd (createContract_try {} (buildContract [ObjId 1123] (Some 42))
                   (test_db, Database_transaction test_db)))"
    using a' by (simp add: prod_eq_iff)
  have b: "createContract_try {} (buildContract [ObjId 1] (Some 100001))
             (test_db, Database_transaction test_db) =
           (Inl draft_not_found,
            snd (createContract_try {} (buildContract [ObjId 1] (Some 100001))
                   (test_db, Database_transaction test_db)))"
    using b' by (simp add: prod_eq_iff)
  have c: "StorageError \<noteq> draft_not_found"
    by (simp add: draft_not_found_def)
  show ?thesis
    using createContract_failure_atomic [OF a] createContract_failure_atomic [OF b] a' b' c
    by blast
qed

text \<open>
  A payload with an attachment, school or metric id that has no row behind it always fails
  with the failed-dependency exception, and nothing is committed.
\<close>

lemma createContract_invalid_reference:
  assumes "\<not> set (destructObjArrayWithId (case p_attachments data of None \<Rightarrow> [] | Some xs \<Rightarrow> xs))
             \<subseteq> set (t_attachments (committed db)) \<or>
           \<not> set (destructObjArrayWithId (p_schools data)) \<subseteq> set (t_schools (committed db)) \<or>
           \<not> set (map mv_metricId (p_expectedMetrics data)) \<subseteq> set (t_metrics (committed db))"
  shows "fst (createContract F data db) = Inl create_failed_dependency \<and>
         committed (snd (createContract F data db)) = committed db"
proof -
  have "\<exists>s. createContract_try F data (db, Database_transaction db) = (Inl StorageError, s)"
    using assms unfolding createContract_try_def
    by (auto simp: bind_def step_defs Let_def Database_transaction_def split: prod.splits sum.splits)
  then obtain s where t: "createContract_try F data (db, Database_transaction db) = (Inl StorageError, s)"
    by blast
  from createContract_try_Inl_committed [OF t] t show ?thesis
    by (simp add: createContract_def trx_rollback_def)
qed

text \<open>
  C3. The contract returned by a successful \<open>createContract\<close>, which is the row added to the
  committed contracts, has status \<^verbatim>\<open>Sent\<close> and not \<^verbatim>\<open>Draft\<close>, whatever the payload holds (a
  \<^verbatim>\<open>status\<close> of its own included).
\<close>

theorem createContract_status_sent:
  assumes "createContract F data db = (Inr contract, db')"
  shows "c_status contract = ContractStatus_Sent \<and>
         c_status contract \<noteq> ContractStatus_Draft \<and>
         t_contracts (committed db') = t_contracts (committed db) @ [contract]"
proof -
  from assms obtain s where t: "createContract_try F data (db, Database_transaction db) = (Inr contract, s)"
    and d: "db' = fst s"
    by (auto simp: createContract_def Let_def split: prod.splits sum.splits if_splits)
  from createContract_try_Inr [OF t] d show ?thesis
    by (simp add: contract_values_def ContractStatus_Sent_def ContractStatus_Draft_def
        Database_transaction_def)
qed

theorem createContract_status_sent_witness:
  "createContract {} (buildContract [ObjId 1] None) test_db =
     (Inr (contract_values (buildContract [ObjId 1] None) 1 1),
      snd (createContract {} (buildContract [ObjId 1] None) test_db)) \<and>
   p_status (buildContract [ObjId 1] None) = Some ContractStatus_Draft \<and>
   c_status (contract_values (buildContract [ObjId 1] None) 1 1) = ContractStatus_Sent \<and>
   t_contracts (committed (snd (createContract {} (buildContract [ObjId 1] None) test_db))) =
     [contract_values (buildContract [ObjId 1] None) 1 1]"
proof -
  have a: "createContract {} (buildContract [ObjId 1] None) test_db =
     (Inr (contract_values (buildContract [ObjId 1] None) 1 1),
      snd (createContract {} (buildContract [ObjId 1] None) test_db))"
    by (simp add: eval_defs)
  have b: "t_contracts (committed test_db) = []"
    by (simp add: test_db_def test_tables_def)
  have c: "p_status (buildContract [ObjId 1] None) = Some ContractStatus_Draft"
    by (simp add: buildContract_def ContractStatus_Draft_def)
  show ?thesis
    using createContract_status_sent [OF a] a b c by simp
qed

text \<open>
  C2. After a successful \<open>createContract\<close> whose \<^verbatim>\<open>draftId\<close> (ids start at 1) is the id of
  a stored draft, no draft has that id any more, and the status transitions of the new
  contract are exactly one row, from \<^verbatim>\<open>Draft\<close> to \<^verbatim>\<open>Sent\<close>, by the creator, whose data holds
  the draft's id and the draft's creation time. Rows stored before the call refer to
  contracts created before it, whose ids are below the sequence.
\<close>

theorem createContract_consumes_draft:
  assumes "createContract F data db = (Inr contract, db')"
    and "p_draftId data = Some draftId" and "draftId \<noteq> 0"
    and "find (\<lambda>d. d_id d = draftId) (t_drafts (committed db)) = Some draft"
    and "\<forall>st \<in> set (t_status_transitions (committed db)). st_contractId st < contract_seq db"
  shows "find (\<lambda>d. d_id d = draftId) (t_drafts (committed db')) = None \<and>
         filter (\<lambda>st. st_contractId st = c_id contract) (t_status_transitions (committed db')) =
           [\<lparr>st_who = p_createdBy data, st_contractId = c_id contract,
             st_initialStatus = ContractStatus_Draft, st_finalStatus = ContractStatus_Sent,
             st_data = Some \<lparr>td_draftId = draftId,
                             td_draftCreation = d_createdAt draft\<rparr>\<rparr>]"
proof -
  from assms(1) obtain s where t: "createContract_try F data (db, Database_transaction db) = (Inr contract, s)"
    and d: "db' = fst s"
    by (auto simp: createContract_def Let_def split: prod.splits sum.splits if_splits)
  have tr: "truthy (p_draftId data)" using assms(2,3) by (simp add: truthy_def)
  have id: "d_id draft = draftId" using assms(4) by (auto dest: find_Some_holds)
  have cid: "c_id contract = contract_seq db"
    using createContract_try_Inr [OF t] by (simp add: contract_values_def)
  have old: "filter (\<lambda>st. st_contractId st = c_id contract) (t_status_transitions (committed db)) = []"
    using assms(5) cid by (auto simp: filter_empty_conv)
  from createContract_try_Inr [OF t] d tr assms(2,4) id old show ?thesis
    by (simp add: Database_transaction_def find_None_iff)
qed

theorem createContract_consumes_draft_witness:
  "fst (createContract {} (buildContract [ObjId 1] (Some 42)) test_db) =
     Inr (contract_values (buildContract [ObjId 1] (Some 42)) ContractStatus_Sent 1) \<and>
   find (\<lambda>d. d_id d = 42) (t_drafts (committed test_db)) =
     Some \<lparr>d_id = 42, d_name = ''Draft 1'', d_countryId = Some 1,
           d_governmentBehalf = Some False, d_ltaId = None, d_schools = None,
           d_createdAt = 1000\<rparr> \<and>
   find (\<lambda>d. d_id d = 42)
     (t_drafts (committed (snd (createContract {} (buildContract [ObjId 1] (Some 42)) test_db)))) =
     None \<and>
   filter (\<lambda>st. st_contractId st = 1)
     (t_status_transitions
        (committed (snd (createContract {} (buildContract [ObjId 1] (Some 42)) test_db)))) =
     [\<lparr>st_who = 7, st_contractId = 1, st_initialStatus = ContractStatus_Draft,
       st_finalStatus = ContractStatus_Sent,
       st_data = Some \<lparr>td_draftId = 42, td_draftCreation = 1000\<rparr>\<rparr>]"
proof -
  have a: "fst (createContract {} (buildContract [ObjId 1] (Some 42)) test_db) =
     Inr (contract_values (buildContract [ObjId 1] (Some 42)) ContractStatus_Sent 1)"
    by (simp add: eval_defs)
  have b: "createContract {} (buildContract [ObjId 1] (Some 42)) test_db =
     (Inr (contract_values (buildContract [ObjId 1] (Some 42)) ContractStatus_Sent 1),
      snd (createContract {} (buildContract [ObjId 1] (Some 42)) test_db))"
    using a by (simp add: prod_eq_iff)
  have c: "p_draftId (buildContract [ObjId 1] (Some 42)) = Some 42"
    by (simp add: buildContract_def)
  have d: "find (\<lambda>d. d_id d = 42) (t_drafts (committed test_db)) =
     Some \<lparr>d_id = 42, d_name = ''Draft 1'', d_countryId = Some 1,
           d_governmentBehalf = Some False, d_ltaId = None, d_schools = None,
           d_createdAt = 1000\<rparr>"
    by (simp add: test_db_def test_tables_def)
  have e: "\<forall>st \<in> set (t_status_transitions (committed test_db)).
             st_contractId st < contract_seq test_db"
    by (simp add: test_db_def test_tables_def)
  have f: "(42::nat) \<noteq> 0" by simp
  show ?thesis
    using createContract_consumes_draft [OF b c f d e] a d
    by (simp add: contract_values_def buildContract_def)
qed

lemmas status_eval_defs = changeStatus_def changeStatus_try_def bind_def return_def throw_def
  trx_commit_def trx_rollback_def Database_transaction_def step_defs truthy_def Let_def

text \<open>
  C4. With an acting user (user ids start at 1) and a storage that answers the lookup:
  \<open>changeStatus\<close> fails with \<^verbatim>\<open>Contract not found\<close> when no contract has the id; for a contract
  at status N it fails with \<^verbatim>\<open>Invalid status\<close> whenever the new status is not N + 1 or not a
  member of the enum, leaving the database as it was; and for N + 1 in the enum, with a
  storage that accepts the writes, it returns the contract at status N + 1, the stored
  contract is updated, and one status transition row with the old status, the new status
  and the user is added.
\<close>

theorem changeStatus_forward_only:
  assumes "userId = Some u" and "u \<noteq> 0" and "Step_Contract_find \<notin> F"
  shows "(find (\<lambda>c. c_id c = contractId) (t_contracts (committed db)) = None \<longrightarrow>
            changeStatus E F contractId newStatus userId db = (Inl contract_not_found, db)) \<and>
         (\<forall>contract. find (\<lambda>c. c_id c = contractId) (t_contracts (committed db)) = Some contract \<longrightarrow>
            (c_status contract + 1 \<noteq> newStatus \<or> \<not> in_ContractStatus E newStatus \<longrightarrow>
               changeStatus E F contractId newStatus userId db = (Inl invalid_status, db)) \<and>
            (c_status contract + 1 = newStatus \<and> in_ContractStatus E newStatus \<and>
             Step_StatusTransition_create \<notin> F \<and> Step_Contract_save \<notin> F \<and> Step_commit \<notin> F \<longrightarrow>
               changeStatus E F contractId newStatus userId db =
                 (Inr (Some (contract\<lparr>c_status := c_status contract + 1\<rparr>)),
                  db\<lparr>committed := (committed db)
                     \<lparr>t_status_transitions := t_status_transitions (committed db) @
                        [\<lparr>st_who = u, st_contractId = c_id contract,
                          st_initialStatus = c_status contract,
                          st_finalStatus = c_status contract + 1, st_data = None\<rparr>],
                      t_contracts :=
                        map (\<lambda>c. if c_id c = c_id contract
                                  then contract\<lparr>c_status := c_status contract + 1\<rparr> else c)
                          (t_contracts (committed db))\<rparr>\<rparr>)))"
  using assms
  by (auto simp: changeStatus_def changeStatus_try_def bind_def return_def throw_def truthy_def
      trx_commit_def trx_rollback_def Database_transaction_def step_defs Let_def)

theorem changeStatus_forward_only_witness:
  "changeStatus example_enum {} 99 2 (Some 7) sent_db = (Inl contract_not_found, sent_db) \<and>
   changeStatus example_enum {} 1 1 (Some 7) sent_db = (Inl invalid_status, sent_db) \<and>
   changeStatus example_enum {} 1 3 (Some 7) sent_db = (Inl invalid_status, sent_db) \<and>
   changeStatus example_enum {} 1 0 (Some 7) sent_db = (Inl invalid_status, sent_db) \<and>
   changeStatus example_enum {} 1 2 (Some 7) sent_db =
     (Inr (Some (contract_values (buildContract [ObjId 1] None) 2 1)),
      sent_db\<lparr>committed := (committed sent_db)
        \<lparr>t_status_transitions :=
           [\<lparr>st_who = 7, st_contractId = 1, st_initialStatus = 1, st_finalStatus = 2,
             st_data = None\<rparr>],
         t_contracts := [contract_values (buildContract [ObjId 1] None) 2 1]\<rparr>\<rparr>)"
proof -
  have u: "Some (7::nat) = Some 7" "(7::nat) \<noteq> 0" "Step_Contract_find \<notin> {}"
    by simp_all
  have n: "find (\<lambda>c. c_id c = 99) (t_contracts (committed sent_db)) = None"
    by (simp add: sent_db_def test_tables_def contract_values_def)
  have f: "find (\<lambda>c. c_id c = 1) (t_contracts (committed sent_db)) =
             Some (contract_values (buildContract [ObjId 1] None) 1 1)"
    by (simp add: sent_db_def test_tables_def contract_values_def ContractStatus_Sent_def)
  have e: "in_ContractStatus example_enum 2" "in_ContractStatus example_enum 3"
    by (simp_all add: in_ContractStatus_def example_enum_def)
  have r: "contract_values (buildContract [ObjId 1] None) 1 1\<lparr>c_status := 2\<rparr> =
             contract_values (buildContract [ObjId 1] None) 2 1"
    "c_status (contract_values (buildContract [ObjId 1] None) 1 1) = 1"
    "c_id (contract_values (buildContract [ObjId 1] None) 1 1) = 1"
    by (simp_all add: contract_values_def)
  have t: "t_status_transitions (committed sent_db) = []"
    "t_contracts (committed sent_db) = [contract_values (buildContract [ObjId 1] None) 1 1]"
    by (simp_all add: sent_db_def test_tables_def ContractStatus_Sent_def)
  show ?thesis
    using changeStatus_forward_only [OF u, of 99 sent_db example_enum 2]
      changeStatus_forward_only [OF u, of 1 sent_db example_enum 1]
      changeStatus_forward_only [OF u, of 1 sent_db example_enum 3]
      changeStatus_forward_only [OF u, of 1 sent_db example_enum 0]
      changeStatus_forward_only [OF u, of 1 sent_db example_enum 2]
      n f e r t
    by simp
qed

text \<open>
  C6. Without an acting user \<open>changeStatus\<close> returns \<^verbatim>\<open>undefined\<close> without an error and leaves
  the database as it was, for every contract id and every new status.
\<close>

theorem changeStatus_without_user:
  "changeStatus E F contractId newStatus None db = (Inr None, db)"
  by (simp add: changeStatus_def truthy_def)

text \<open>
  C5. A contract at status 1 is moved to status 2 by user 7, and the storage rejects the
  insert of the status transition row: the transaction is rolled back, but the caller gets
  the storage error itself, not the failed-dependency exception (\<^verbatim>\<open>if (error) throw error\<close>
  rethrows every exception).
\<close>

theorem changeStatus_storage_error_surfaces:
  "changeStatus example_enum {Step_StatusTransition_create} 1 2 (Some 7) sent_db =
     (Inl StorageError, sent_db)"
  by (simp add: status_eval_defs sent_db_def test_tables_def contract_values_def buildContract_def
      ContractStatus_Sent_def example_enum_def in_ContractStatus_def)

section \<open>Properties of queryBuilder, contractListDTO and getContractList\<close>

text \<open>
  C8. For a user with the administrator role the three queries have no condition: every
  contract, draft and LTA is visible. For any other user each query is the conjunction of
  the conditions that apply: the user's country for contracts, drafts and LTAs; for a user
  with the government role also \<^verbatim>\<open>governmentBehalf\<close> true on contracts and drafts; for a user
  with the ISP role also an ISP of the user's name on contracts and drafts, and an ISP of
  that name among the ISPs of an LTA.
\<close>

theorem queryBuilder_scope:
  assumes "queryBuilder R user = (query, draftQuery, ltaQuery)"
  shows "(checkUserRole user [r_gigaAdmin R] \<longrightarrow>
            (\<forall>c. query c) \<and> (\<forall>d. draftQuery d) \<and> (\<forall>l. ltaQuery l)) \<and>
         (\<not> checkUserRole user [r_gigaAdmin R] \<longrightarrow>
            (\<forall>c. query c =
               (c_countryId c = u_countryId user \<and>
                (checkUserRole user [r_government R] \<longrightarrow> c_governmentBehalf c) \<and>
                (checkUserRole user [r_isp R] \<longrightarrow> isp_name (cl_isp c) = u_name user))) \<and>
            (\<forall>d. draftQuery d =
               (d_countryId d = Some (u_countryId user) \<and>
                (checkUserRole user [r_government R] \<longrightarrow> d_governmentBehalf d = Some True) \<and>
                (checkUserRole user [r_isp R] \<longrightarrow>
                   (\<exists>i. dl_isp d = Some i \<and> isp_name i = u_name user)))) \<and>
            (\<forall>l. ltaQuery l =
               (lta_countryId l = u_countryId user \<and>
                (checkUserRole user [r_isp R] \<longrightarrow>
                   (\<exists>i \<in> set (lta_isps l). isp_name i = u_name user)))))"
  using assms
  by (auto simp: queryBuilder_def query_where_def Let_def list_ex_iff
      split: if_splits option.splits)

theorem queryBuilder_scope_witness:
  "(\<forall>c. fst (queryBuilder example_roles admin_user) c) \<and>
   (\<forall>d. fst (snd (queryBuilder example_roles admin_user)) d) \<and>
   (\<forall>l. snd (snd (queryBuilder example_roles admin_user)) l) \<and>
   (\<forall>c. fst (queryBuilder example_roles isp_government_user) c =
      (c_countryId c = 5 \<and> c_governmentBehalf c \<and> isp_name (cl_isp c) = ''ISP A'')) \<and>
   (\<forall>d. fst (snd (queryBuilder example_roles isp_government_user)) d =
      (d_countryId d = Some 5 \<and> d_governmentBehalf d = Some True \<and>
       (\<exists>i. dl_isp d = Some i \<and> isp_name i = ''ISP A''))) \<and>
   (\<forall>l. snd (snd (queryBuilder example_roles isp_government_user)) l =
      (lta_countryId l = 5 \<and> (\<exists>i \<in> set (lta_isps l). isp_name i = ''ISP A'')))"
proof -
  have a: "queryBuilder example_roles admin_user =
             (fst (queryBuilder example_roles admin_user),
              fst (snd (queryBuilder example_roles admin_user)),
              snd (snd (queryBuilder example_roles admin_user)))"
    by simp
  have b: "queryBuilder example_roles isp_government_user =
             (fst (queryBuilder example_roles isp_government_user),
              fst (snd (queryBuilder example_roles isp_government_user)),
              snd (snd (queryBuilder example_roles isp_government_user)))"
    by simp
  have c: "checkUserRole admin_user [r_gigaAdmin example_roles]"
    "\<not> checkUserRole isp_government_user [r_gigaAdmin example_roles]"
    "checkUserRole isp_government_user [r_government example_roles]"
    "checkUserRole isp_government_user [r_isp example_roles]"
    "u_countryId isp_government_user = 5" "u_name isp_government_user = ''ISP A''"
    by (simp_all add: checkUserRole_def example_roles_def admin_user_def isp_government_user_def)
  show ?thesis
    using queryBuilder_scope [OF a] queryBuilder_scope [OF b] c
    by simp
qed

lemma foldl_formatLtaList:
  "foldl (\<lambda>aggregate current. aggregate(lta_name current \<mapsto> [])) m ltas =
     (\<lambda>n. if n \<in> lta_name ` set ltas then Some [] else m n)"
  by (induction ltas arbitrary: m) (auto simp: fun_eq_iff)

lemma formatLtaList_eq:
  "formatLtaList ltas = (\<lambda>n. if n \<in> lta_name ` set ltas then Some [] else None)"
  by (simp add: formatLtaList_def foldl_formatLtaList)

lemma forEach_place:
  "forEach (\<lambda>x s. case ent x of Inl e \<Rightarrow> Inl e | Inr entry \<Rightarrow> place (lid x) (lt x) entry s) xs (L, C) =
     Inr (L', C') \<Longrightarrow>
   dom L' = dom L \<and>
   C' = C @ map (\<lambda>x. projr (ent x)) (filter (\<lambda>x. \<not> truthy (lid x)) xs) \<and>
   (\<forall>n \<in> dom L.
      L' n = Some (the (L n) @
        map (\<lambda>x. projr (ent x))
          (filter (\<lambda>x. truthy (lid x) \<and> map_option lta_name (lt x) = Some n) xs)))"
proof (induction xs arbitrary: L C)
  case Nil
  then show ?case by auto
next
  case (Cons x xs)
  from Cons.prems obtain entry L1 C1 where e: "ent x = Inr entry"
    and p: "place (lid x) (lt x) entry (L, C) = Inr (L1, C1)"
    and r: "forEach (\<lambda>x s. case ent x of Inl e \<Rightarrow> Inl e | Inr entry \<Rightarrow> place (lid x) (lt x) entry s) xs (L1, C1) =
     Inr (L', C')"
    by (auto split: sum.splits)
  note ih = Cons.IH [OF r]
  show ?case
  proof (cases "truthy (lid x)")
    case False
    with p have "L1 = L" "C1 = C @ [entry]" by (auto simp: place_def)
    with ih e False show ?thesis by simp
  next
    case True
    with p obtain l where l: "lt x = Some l" by (auto simp: place_def split: option.splits)
    show ?thesis
    proof (cases "L (lta_name l)")
      case None
      with p True l have "L1 = L" "C1 = C" by (auto simp: place_def)
      with ih e True l None show ?thesis by (auto simp: domIff)
    next
      case (Some bucket)
      with p True l have L1: "L1 = L(lta_name l \<mapsto> bucket @ [entry])" and C1: "C1 = C"
        by (auto simp: place_def)
      have d: "dom L1 = dom L" using Some L1 by auto
      from ih have A: "dom L' = dom L1"
        and B: "C' = C1 @ map (\<lambda>x. projr (ent x)) (filter (\<lambda>x. \<not> truthy (lid x)) xs)"
        and D: "\<forall>n \<in> dom L1. L' n = Some (the (L1 n) @
                  map (\<lambda>x. projr (ent x))
                    (filter (\<lambda>x. truthy (lid x) \<and> map_option lta_name (lt x) = Some n) xs))"
        by blast+
      have "\<forall>n \<in> dom L. L' n = Some (the (L n) @
              map (\<lambda>x. projr (ent x))
                (filter (\<lambda>x. truthy (lid x) \<and> map_option lta_name (lt x) = Some n) (x # xs)))"
      proof
        fix n assume "n \<in> dom L"
        with d D have n: "L' n = Some (the (L1 n) @
                  map (\<lambda>x. projr (ent x))
                    (filter (\<lambda>x. truthy (lid x) \<and> map_option lta_name (lt x) = Some n) xs))"
          by blast
        show "L' n = Some (the (L n) @
              map (\<lambda>x. projr (ent x))
                (filter (\<lambda>x. truthy (lid x) \<and> map_option lta_name (lt x) = Some n) (x # xs)))"
        proof (cases "n = lta_name l")
          case True
          with n L1 Some e l \<open>truthy (lid x)\<close> show ?thesis by simp
        next
          case False
          with n L1 l show ?thesis by auto
        qed
      qed
      with A B C1 d True show ?thesis by simp
    qed
  qed
qed

lemma forEach_place_entries:
  "forEach (\<lambda>x s. case ent x of Inl e \<Rightarrow> Inl e | Inr entry \<Rightarrow> place (lid x) (lt x) entry s) xs s0 =
     Inr s1 \<Longrightarrow> x \<in> set xs \<Longrightarrow> ent x = Inr (projr (ent x))"
  by (induction xs arbitrary: s0) (auto split: sum.splits)

lemma forEach_place_total:
  "forEach (\<lambda>x. place (lid x) (lt x) (en x)) xs (L, C) = Inr (L', C') \<Longrightarrow>
   dom L' = dom L \<and>
   C' = C @ map en (filter (\<lambda>x. \<not> truthy (lid x)) xs) \<and>
   (\<forall>n \<in> dom L.
      L' n = Some (the (L n) @
        map en (filter (\<lambda>x. truthy (lid x) \<and> map_option lta_name (lt x) = Some n) xs)))"
  using forEach_place [where ent = "\<lambda>x. Inr (en x)" and lid = lid and lt = lt and xs = xs
      and L = L and C = C and L' = L' and C' = C']
  by simp

text \<open>
  C9. Whenever \<open>contractListDTO\<close> returns a result: the buckets are exactly the names
  of the given LTAs (one for each, also when it stays empty); the bucket of a name holds, in
  order, the entries of the drafts and then of the contracts that have an LTA of that name,
  and none of them is in the flat list; the flat list holds, in order and once each, the
  entries of the drafts and then of the contracts that have no LTA. A draft or contract
  whose LTA's name is not among the given LTAs is in no bucket and not in the flat list.
\<close>

theorem contractListDTO_placement:
  assumes "contractListDTO E data drafts ltasData schoolsMeasures = Inr r"
  shows "dom (dto_ltas r) = lta_name ` set ltasData \<and>
         (\<forall>n \<in> lta_name ` set ltasData.
            dto_ltas r n =
              Some (map draftData
                      (filter (\<lambda>d. truthy (d_ltaId d) \<and> map_option lta_name (dl_lta d) = Some n)
                         drafts) @
                    map (\<lambda>c. projr (contractData E schoolsMeasures c))
                      (filter (\<lambda>c. truthy (c_ltaId c) \<and> map_option lta_name (cl_lta c) = Some n)
                         data))) \<and>
         dto_contracts r =
           map draftData (filter (\<lambda>d. \<not> truthy (d_ltaId d)) drafts) @
           map (\<lambda>c. projr (contractData E schoolsMeasures c))
             (filter (\<lambda>c. \<not> truthy (c_ltaId c)) data) \<and>
         (\<forall>c \<in> set data.
            contractData E schoolsMeasures c = Inr (projr (contractData E schoolsMeasures c)))"
proof -
  let ?L0 = "formatLtaList ltasData"
  from assms obtain L1 C1 L2 C2 where
    a: "forEach (\<lambda>draft. place (d_ltaId draft) (dl_lta draft) (draftData draft)) drafts (?L0, []) =
          Inr (L1, C1)"
    and b: "forEach (\<lambda>contract s'.
                     case contractData E schoolsMeasures contract of
                       Inl e \<Rightarrow> Inl e
                     | Inr entry \<Rightarrow> place (c_ltaId contract) (cl_lta contract) entry s')
              data (L1, C1) = Inr (L2, C2)"
    and r: "r = \<lparr>dto_ltas = L2, dto_contracts = C2\<rparr>"
    by (auto simp: contractListDTO_def split: sum.splits)
  have d0: "dom ?L0 = lta_name ` set ltasData"
    by (auto simp: formatLtaList_eq split: if_splits)
  have v0: "\<And>n. n \<in> lta_name ` set ltasData \<Longrightarrow> ?L0 n = Some []"
    by (simp add: formatLtaList_eq)
  note A = forEach_place_total [OF a]
  note B = forEach_place [OF b]
  from A have d1: "dom L1 = lta_name ` set ltasData" using d0 by simp
  from B d1 have d2: "dom L2 = lta_name ` set ltasData" by simp
  have c2: "C2 = map draftData (filter (\<lambda>d. \<not> truthy (d_ltaId d)) drafts) @
           map (\<lambda>c. projr (contractData E schoolsMeasures c))
             (filter (\<lambda>c. \<not> truthy (c_ltaId c)) data)"
    using A B by simp
  have l2: "\<forall>n \<in> lta_name ` set ltasData.
            L2 n =
              Some (map draftData
                      (filter (\<lambda>d. truthy (d_ltaId d) \<and> map_option lta_name (dl_lta d) = Some n)
                         drafts) @
                    map (\<lambda>c. projr (contractData E schoolsMeasures c))
                      (filter (\<lambda>c. truthy (c_ltaId c) \<and> map_option lta_name (cl_lta c) = Some n)
                         data))"
  proof
    fix n assume n: "n \<in> lta_name ` set ltasData"
    with A d0 have "L1 n = Some (the (?L0 n) @ map draftData
                      (filter (\<lambda>d. truthy (d_ltaId d) \<and> map_option lta_name (dl_lta d) = Some n)
                         drafts))"
      by blast
    with v0 [OF n] have 1: "L1 n = Some (map draftData
                      (filter (\<lambda>d. truthy (d_ltaId d) \<and> map_option lta_name (dl_lta d) = Some n)
                         drafts))"
      by simp
    from n B d1 have "L2 n = Some (the (L1 n) @ map (\<lambda>c. projr (contractData E schoolsMeasures c))
                      (filter (\<lambda>c. truthy (c_ltaId c) \<and> map_option lta_name (cl_lta c) = Some n)
                         data))"
      by blast
    with 1 show "L2 n =
              Some (map draftData
                      (filter (\<lambda>d. truthy (d_ltaId d) \<and> map_option lta_name (dl_lta d) = Some n)
                         drafts) @
                    map (\<lambda>c. projr (contractData E schoolsMeasures c))
                      (filter (\<lambda>c. truthy (c_ltaId c) \<and> map_option lta_name (cl_lta c) = Some n)
                         data))"
      by simp
  qed
  have e: "\<forall>c \<in> set data.
            contractData E schoolsMeasures c = Inr (projr (contractData E schoolsMeasures c))"
    using forEach_place_entries [OF b] by blast
  from r d2 l2 c2 e show ?thesis by simp
qed

text \<open>
  The guard \<^verbatim>\<open>if (ltas[draft.lta.name])\<close> at work: a draft of LTA 5, named LTA 1, with no LTA
  given, is in no bucket and not in the flat list.
\<close>

theorem contractListDTO_unlisted_lta_counterexample:
  "d_ltaId draft_in_lta = Some 5 \<and>
   map_option lta_name (dl_lta draft_in_lta) = Some ''LTA 1'' \<and>
   contractListDTO example_enum [] [draft_in_lta] [] (ByContract Map.empty) =
     Inr \<lparr>dto_ltas = Map.empty, dto_contracts = []\<rparr>"
  by (simp add: contractListDTO_def place_def truthy_def formatLtaList_def draft_in_lta_def
      lta_one_def)

lemmas list_eval_defs = contractListDTO_def contractData_def place_def truthy_def
  formatLtaList_def schoolsMeasures_at_def evaluateMeasures_any_def evaluateMeasures_def
  draft_in_lta_def draft_without_lta_def contract_with_school_def lta_one_def lta_two_def
  school_a_def nested_measures_def

theorem contractListDTO_placement_witness:
  "contractListDTO example_enum [contract_with_school [school_a]]
     [draft_in_lta, draft_without_lta] [lta_one, lta_two] nested_measures =
     Inr (projr (contractListDTO example_enum [contract_with_school [school_a]]
            [draft_in_lta, draft_without_lta] [lta_one, lta_two] nested_measures)) \<and>
   dto_ltas (projr (contractListDTO example_enum [contract_with_school [school_a]]
            [draft_in_lta, draft_without_lta] [lta_one, lta_two] nested_measures)) ''LTA 1'' =
     Some [draftData draft_in_lta] \<and>
   dto_ltas (projr (contractListDTO example_enum [contract_with_school [school_a]]
            [draft_in_lta, draft_without_lta] [lta_one, lta_two] nested_measures)) ''LTA 2'' =
     Some [] \<and>
   dto_contracts (projr (contractListDTO example_enum [contract_with_school [school_a]]
            [draft_in_lta, draft_without_lta] [lta_one, lta_two] nested_measures)) =
     [draftData draft_without_lta,
      projr (contractData example_enum nested_measures (contract_with_school [school_a]))]"
proof -
  have "\<exists>r. contractListDTO example_enum [contract_with_school [school_a]]
     [draft_in_lta, draft_without_lta] [lta_one, lta_two] nested_measures = Inr r"
    by (simp add: list_eval_defs)
  then have a: "contractListDTO example_enum [contract_with_school [school_a]]
     [draft_in_lta, draft_without_lta] [lta_one, lta_two] nested_measures =
     Inr (projr (contractListDTO example_enum [contract_with_school [school_a]]
            [draft_in_lta, draft_without_lta] [lta_one, lta_two] nested_measures))"
    by auto
  have b: "truthy (d_ltaId draft_in_lta)" "\<not> truthy (d_ltaId draft_without_lta)"
    "\<not> truthy (c_ltaId (contract_with_school [school_a]))"
    "dl_lta draft_in_lta = Some lta_one"
    "lta_name lta_one = ''LTA 1''" "lta_name lta_two = ''LTA 2''"
    by (simp_all add: truthy_def draft_in_lta_def draft_without_lta_def contract_with_school_def
        lta_one_def lta_two_def)
  show ?thesis
    using contractListDTO_placement [OF a] a b
    by simp
qed

text \<open>
  C10. An administrator lists one contract, Contract 1, with one school, School A, that has
  measures: \<open>getContractList\<close> keys the measures by the school's name, \<open>contractListDTO\<close> reads
  them under the contract's name first, finds \<^verbatim>\<open>undefined\<close> there, and the read of the school's
  name on it raises a \<^verbatim>\<open>TypeError\<close>.
\<close>

theorem getContractList_raises:
  "getContractList example_roles example_enum admin_user [contract_with_school [school_a]] [] []
     measureAvg_one = Inl TypeError"
  by (simp add: getContractList_def queryBuilder_def checkUserRole_def example_roles_def
      admin_user_def list_eval_defs)

end
